theory Spec2Isabelle
  imports Complex_Main "HOL-Library.Multiset" "HOL-Library.Word"
begin

section \<open>JavaScript numbers\<close>

text \<open>
  A JavaScript \<open>number\<close> is a finite value, one of the two infinities, or NaN. Finite
  values are modelled as reals (rounding is not modelled, and the sign of zero is not
  distinguished). Division follows IEEE 754: a division by zero is not an error, it
  yields an infinity or NaN.
\<close>

datatype number = Finite real | PosInfinity | NegInfinity | NaN

fun js_div :: "number \<Rightarrow> number \<Rightarrow> number" where
  "js_div NaN _ = NaN"
| "js_div _ NaN = NaN"
| "js_div (Finite a) (Finite b) =
     (if b \<noteq> 0 then Finite (a / b)
      else if 0 < a then PosInfinity
      else if a < 0 then NegInfinity
      else NaN)"
| "js_div (Finite a) _ = Finite 0"
| "js_div PosInfinity (Finite b) = (if b < 0 then NegInfinity else PosInfinity)"
| "js_div NegInfinity (Finite b) = (if b < 0 then PosInfinity else NegInfinity)"
| "js_div _ _ = NaN"

text \<open>\<open>Math.min\<close> of two arguments: NaN is contagious, otherwise the least one.\<close>

fun js_min2 :: "number \<Rightarrow> number \<Rightarrow> number" where
  "js_min2 NaN _ = NaN"
| "js_min2 _ NaN = NaN"
| "js_min2 NegInfinity _ = NegInfinity"
| "js_min2 _ NegInfinity = NegInfinity"
| "js_min2 PosInfinity b = b"
| "js_min2 a PosInfinity = a"
| "js_min2 (Finite a) (Finite b) = Finite (min a b)"

text \<open>\<open>Math.min(a, b, ...)\<close>; with no argument the result is \<open>Infinity\<close>.\<close>

definition Math_min :: "number list \<Rightarrow> number" where
  "Math_min xs = foldl js_min2 PosInfinity xs"

datatype js_error = TypeError

section \<open>Data model (types.ts) and component state (CanvasEditor.tsx, lines 21-27)\<close>

text \<open>
  \<open>Point\<close> is \<open>{x: number, y: number}\<close>; the fields are called \<open>px\<close> and \<open>py\<close> here
  so that \<open>x\<close> and \<open>y\<close> stay free for variables.
\<close>

record Point =
  px :: number
  py :: number

record DrawPath =
  points :: "Point list"
  brushSize :: real

record Dimensions =
  width :: nat
  height :: nat

record EditorState =
  paths :: "DrawPath list"
  isDrawing :: bool
  currentPath :: "Point list"
  imageDimensions :: Dimensions
  scale :: number
  cursorPos :: "Point option"
  isHovering :: bool

text \<open>The initial values given to \<open>useState\<close>.\<close>

definition initialState :: EditorState where
  "initialState =
     \<lparr>paths = [], isDrawing = False, currentPath = [],
      imageDimensions = \<lparr>width = 0, height = 0\<rparr>,
      scale = Finite 1, cursorPos = None, isHovering = False\<rparr>"

section \<open>Geometry: display scale and pointer coordinates\<close>

text \<open>
  Lines 43-45 of \<open>img.onload\<close>:
  \<open>scaleW = maxWidth / w; scaleH = maxHeight / h; Math.min(scaleW, scaleH, 1)\<close>.
\<close>

definition computeScale :: "real \<Rightarrow> real \<Rightarrow> real \<Rightarrow> real \<Rightarrow> number" where
  "computeScale w h maxWidth maxHeight =
     (let scaleW = js_div (Finite maxWidth) (Finite w);
          scaleH = js_div (Finite maxHeight) (Finite h)
      in Math_min [scaleW, scaleH, Finite 1])"

text \<open>
  \<open>img.onload\<close> (lines 36-49), for a window of inner width \<open>innerWidth\<close> and an image
  of \<open>w\<close> by \<open>h\<close> pixels.
\<close>

definition onload :: "real \<Rightarrow> nat \<Rightarrow> nat \<Rightarrow> EditorState \<Rightarrow> EditorState" where
  "onload innerWidth w h st =
     (let maxWidth = min (innerWidth - 32) 800;
          maxHeight = 600;
          scaleFactor = computeScale (real w) (real h) maxWidth maxHeight
      in st\<lparr>imageDimensions := \<lparr>width = w, height = h\<rparr>, scale := scaleFactor\<rparr>)"

text \<open>
  A React synthetic pointer event: a mouse event carries \<open>clientX\<close> and \<open>clientY\<close>, a
  touch event carries the list \<open>touches\<close> of \<open>(clientX, clientY)\<close> pairs.
\<close>

datatype synthetic_event =
  MouseEvent real real
  | TouchEvent "(real \<times> real) list"

text \<open>The bounding rectangle of the canvas element (\<open>left\<close> and \<open>top\<close> are used).\<close>

record DOMRect =
  rect_left :: real
  rect_top :: real

text \<open>
  \<open>getCoordinates\<close> (lines 52-70). The first argument is \<open>canvasRef.current\<close>, given by
  its bounding rectangle, \<open>None\<close> when the ref is null. Reading \<open>clientX\<close> of
  \<open>e.touches[0]\<close> when \<open>touches\<close> is empty reads a property of \<open>undefined\<close>, which
  throws a TypeError.
\<close>

definition getCoordinates ::
  "DOMRect option \<Rightarrow> number \<Rightarrow> synthetic_event \<Rightarrow> js_error + Point option" where
  "getCoordinates canvas sc e =
     (case canvas of
        None \<Rightarrow> Inr None
      | Some rect \<Rightarrow>
          (case e of
             TouchEvent touches \<Rightarrow>
               (case touches of
                  [] \<Rightarrow> Inl TypeError
                | t # _ \<Rightarrow>
                    Inr (Some \<lparr>px = js_div (Finite (fst t - rect_left rect)) sc,
                               py = js_div (Finite (snd t - rect_top rect)) sc\<rparr>))
           | MouseEvent clientX clientY \<Rightarrow>
               Inr (Some \<lparr>px = js_div (Finite (clientX - rect_left rect)) sc,
                          py = js_div (Finite (clientY - rect_top rect)) sc\<rparr>)))"

section \<open>Stroke recorder: the event handlers\<close>

text \<open>
  Each handler is a function from the state of the last render to the state after the
  queued updates; a handler that throws leaves \<open>Inl\<close> of the error.
\<close>

definition startDrawing ::
  "DOMRect option \<Rightarrow> synthetic_event \<Rightarrow> EditorState \<Rightarrow> js_error + EditorState" where
  "startDrawing canvas e st =
     (case getCoordinates canvas (scale st) e of
        Inl err \<Rightarrow> Inl err
      | Inr None \<Rightarrow> Inr st
      | Inr (Some coords) \<Rightarrow> Inr (st\<lparr>isDrawing := True, currentPath := [coords]\<rparr>))"

definition draw ::
  "DOMRect option \<Rightarrow> synthetic_event \<Rightarrow> EditorState \<Rightarrow> js_error + EditorState" where
  "draw canvas e st =
     (let st1 =
        (case e of
           TouchEvent _ \<Rightarrow> st
         | MouseEvent clientX clientY \<Rightarrow>
             (case canvas of
                None \<Rightarrow> st
              | Some rect \<Rightarrow>
                  st\<lparr>cursorPos := Some \<lparr>px = Finite (clientX - rect_left rect),
                                         py = Finite (clientY - rect_top rect)\<rparr>\<rparr>))
      in if \<not> isDrawing st then Inr st1
         else (case getCoordinates canvas (scale st) e of
                 Inl err \<Rightarrow> Inl err
               | Inr None \<Rightarrow> Inr st1
               | Inr (Some coords) \<Rightarrow>
                   Inr (st1\<lparr>currentPath := currentPath st1 @ [coords]\<rparr>)))"




text \<open>
  \<open>prev.slice(0, -1)\<close>: a negative end counts from the end of the array and is clamped
  at 0, so the result holds the first \<open>max (length - 1) 0\<close> elements.
\<close>

definition slice_0_minus1 :: "'a list \<Rightarrow> 'a list" where
  "slice_0_minus1 prev = take (nat (max (int (length prev) - 1) 0)) prev"

definition handleUndo :: "EditorState \<Rightarrow> EditorState" where
  "handleUndo st = st\<lparr>paths := slice_0_minus1 (paths st)\<rparr>"


text \<open>Appending a committed stroke \<open>s\<close>, as \<open>stopDrawing\<close> does: \<open>[...prev, s]\<close>.\<close>

definition appendStroke :: "DrawPath \<Rightarrow> EditorState \<Rightarrow> EditorState" where
  "appendStroke s st = st\<lparr>paths := paths st @ [s]\<rparr>"

section \<open>The 2D canvas\<close>

text \<open>
  The compositor and the overlay renderer are sequences of calls on a
  \<open>CanvasRenderingContext2D\<close>. The context is modelled as a record of the drawing state
  the code touches. Image data and exported pixels are 8-bit RGBA with straight
  (non-premultiplied) colour; the canvas bitmap holds 8-bit pixels whose colour channels
  are premultiplied by alpha. Every draw call computes each channel of each pixel once
  and rounds it to the nearest 8-bit value.
\<close>

record rgba =
  red :: "8 word"
  green :: "8 word"
  blue :: "8 word"
  alpha :: "8 word"

record premultiplied =
  pm_red :: "8 word"
  pm_green :: "8 word"
  pm_blue :: "8 word"
  pm_alpha :: "8 word"

datatype composite_op = SourceOver | DestinationOut

datatype line_cap = ButtCap | RoundCap | SquareCap

datatype line_join = MiterJoin | RoundJoin | BevelJoin

text \<open>
  An image element as the drawing code sees it: whether its data is available
  (\<open>complete\<close>), its natural size and its decoded pixels.
\<close>

record HTMLImageElement =
  complete :: bool
  naturalWidth :: nat
  naturalHeight :: nat
  pixel :: "nat \<times> nat \<Rightarrow> rgba"

text \<open>
  What the browser supplies and the repository does not contain:
  \<^item> \<open>getContext2d\<close>: whether \<open>canvas.getContext('2d')\<close> returns a context;
  \<^item> \<open>newImage\<close>: the image element that \<open>new Image()\<close> followed by \<open>img.src = imageSrc\<close>
    gives at the moment it is drawn;
  \<^item> \<open>resample\<close>: the pixels of an image scaled to a destination size other than its
    natural size;
  \<^item> \<open>rasterize\<close>: the coverage, from 0 (none) to 255 (full), at a pixel, of the current
    path stroked with the given cap, join and line width; strokes are anti-aliased, so
    a pixel on the edge of a stroke has a coverage in between.
\<close>

record Platform =
  getContext2d :: bool
  newImage :: "string \<Rightarrow> HTMLImageElement"
  resample :: "HTMLImageElement \<Rightarrow> nat \<Rightarrow> nat \<Rightarrow> nat \<times> nat \<Rightarrow> rgba"
  rasterize ::
    "line_cap \<Rightarrow> line_join \<Rightarrow> real \<Rightarrow> (real \<times> real) list list \<Rightarrow> nat \<times> nat \<Rightarrow> 8 word"

record Context2D =
  canvas_width :: nat
  canvas_height :: nat
  bitmap :: "nat \<times> nat \<Rightarrow> premultiplied"
  globalCompositeOperation :: composite_op
  lineWidth :: real
  lineCap :: line_cap
  lineJoin :: line_join
  strokeStyle :: rgba
  subpaths :: "(real \<times> real) list list"

text \<open>\<open>a * b / 255\<close>, rounded to the nearest integer.\<close>

definition mul_div255 :: "8 word \<Rightarrow> 8 word \<Rightarrow> 8 word" where
  "mul_div255 a b = of_nat ((2 * unat a * unat b + 255) div 510)"

definition premultiply :: "rgba \<Rightarrow> premultiplied" where
  "premultiply c =
     \<lparr>pm_red = mul_div255 (red c) (alpha c), pm_green = mul_div255 (green c) (alpha c),
      pm_blue = mul_div255 (blue c) (alpha c), pm_alpha = alpha c\<rparr>"

text \<open>
  Back to straight colour, \<open>c * 255 / a\<close> rounded to the nearest integer and clamped; a
  fully transparent pixel has no colour left and reads as transparent black.
\<close>

definition unpremultiply :: "premultiplied \<Rightarrow> rgba" where
  "unpremultiply q =
     (if pm_alpha q = 0 then \<lparr>red = 0, green = 0, blue = 0, alpha = 0\<rparr>
      else (let a = unat (pm_alpha q);
                un = (\<lambda>c. of_nat (min 255 ((2 * 255 * unat c + a) div (2 * a))))
            in \<lparr>red = un (pm_red q), green = un (pm_green q), blue = un (pm_blue q),
                alpha = pm_alpha q\<rparr>))"

text \<open>A source pixel weighted by a coverage.\<close>

definition cover :: "8 word \<Rightarrow> premultiplied \<Rightarrow> premultiplied" where
  "cover cov s =
     \<lparr>pm_red = mul_div255 (pm_red s) cov, pm_green = mul_div255 (pm_green s) cov,
      pm_blue = mul_div255 (pm_blue s) cov, pm_alpha = mul_div255 (pm_alpha s) cov\<rparr>"

definition transparent_black :: premultiplied where
  "transparent_black = \<lparr>pm_red = 0, pm_green = 0, pm_blue = 0, pm_alpha = 0\<rparr>"

text \<open>
  A new canvas, and a canvas whose \<open>width\<close> or \<open>height\<close> has just been assigned: the
  bitmap is transparent black and the drawing state has its default values.
\<close>

definition createCanvas :: "nat \<Rightarrow> nat \<Rightarrow> Context2D" where
  "createCanvas w h =
     \<lparr>canvas_width = w, canvas_height = h, bitmap = (\<lambda>_. transparent_black),
      globalCompositeOperation = SourceOver, lineWidth = 1,
      lineCap = ButtCap, lineJoin = MiterJoin,
      strokeStyle = \<lparr>red = 0, green = 0, blue = 0, alpha = 255\<rparr>,
      subpaths = []\<rparr>"

text \<open>
  The Porter-Duff operators on premultiplied pixels. Source-over: every channel is the
  source plus the destination weighted by the source's transparency. Destination-out:
  every channel of the destination is weighted by the source's transparency; the
  colour of the source plays no part.
\<close>

definition source_over :: "premultiplied \<Rightarrow> premultiplied \<Rightarrow> premultiplied" where
  "source_over s d =
     (let k = 255 - pm_alpha s
      in \<lparr>pm_red = pm_red s + mul_div255 (pm_red d) k,
          pm_green = pm_green s + mul_div255 (pm_green d) k,
          pm_blue = pm_blue s + mul_div255 (pm_blue d) k,
          pm_alpha = pm_alpha s + mul_div255 (pm_alpha d) k\<rparr>)"

definition destination_out :: "premultiplied \<Rightarrow> premultiplied \<Rightarrow> premultiplied" where
  "destination_out s d =
     (let k = 255 - pm_alpha s
      in \<lparr>pm_red = mul_div255 (pm_red d) k, pm_green = mul_div255 (pm_green d) k,
          pm_blue = mul_div255 (pm_blue d) k, pm_alpha = mul_div255 (pm_alpha d) k\<rparr>)"

fun blend :: "composite_op \<Rightarrow> premultiplied \<Rightarrow> premultiplied \<Rightarrow> premultiplied" where
  "blend SourceOver s d = source_over s d"
| "blend DestinationOut s d = destination_out s d"

text \<open>
  \<open>ctx.drawImage(img, 0, 0, dw, dh)\<close>. An image whose data is not available is not
  drawn. Drawn at its natural size the image is taken pixel by pixel; at another size
  the platform resamples it. The pixels are premultiplied and blended into the bitmap.
\<close>

definition drawImage ::
  "Platform \<Rightarrow> HTMLImageElement \<Rightarrow> nat \<Rightarrow> nat \<Rightarrow> Context2D \<Rightarrow> Context2D" where
  "drawImage plat img dw dh ctx =
     (if \<not> complete img then ctx
      else (let src = (if dw = naturalWidth img \<and> dh = naturalHeight img
                       then pixel img else resample plat img dw dh)
            in ctx\<lparr>bitmap := (\<lambda>p.
                 if fst p < min dw (canvas_width ctx) \<and> snd p < min dh (canvas_height ctx)
                 then blend (globalCompositeOperation ctx) (premultiply (src p)) (bitmap ctx p)
                 else bitmap ctx p)\<rparr>))"

definition beginPath :: "Context2D \<Rightarrow> Context2D" where
  "beginPath ctx = ctx\<lparr>subpaths := []\<rparr>"

text \<open>The \<open>lineWidth\<close> setter ignores zero and negative values.\<close>

definition set_lineWidth :: "real \<Rightarrow> Context2D \<Rightarrow> Context2D" where
  "set_lineWidth v ctx = (if 0 < v then ctx\<lparr>lineWidth := v\<rparr> else ctx)"

text \<open>\<open>moveTo\<close> and \<open>lineTo\<close> ignore a point with an infinite or NaN coordinate.\<close>

definition moveTo :: "Point \<Rightarrow> Context2D \<Rightarrow> Context2D" where
  "moveTo p ctx =
     (case (px p, py p) of
        (Finite a, Finite b) \<Rightarrow> ctx\<lparr>subpaths := subpaths ctx @ [[(a, b)]]\<rparr>
      | _ \<Rightarrow> ctx)"

definition lineTo :: "Point \<Rightarrow> Context2D \<Rightarrow> Context2D" where
  "lineTo p ctx =
     (case (px p, py p) of
        (Finite a, Finite b) \<Rightarrow>
          (if subpaths ctx = [] then ctx\<lparr>subpaths := [[(a, b)]]\<rparr>
           else ctx\<lparr>subpaths := butlast (subpaths ctx) @ [last (subpaths ctx) @ [(a, b)]]\<rparr>)
      | _ \<Rightarrow> ctx)"

text \<open>
  \<open>ctx.stroke()\<close>: every pixel of the canvas is blended with the stroke style weighted
  by the coverage of the stroked path there. An empty path strokes nothing.
\<close>

definition stroke :: "Platform \<Rightarrow> Context2D \<Rightarrow> Context2D" where
  "stroke plat ctx =
     (if subpaths ctx = [] then ctx
      else ctx\<lparr>bitmap := (\<lambda>p.
             if fst p < canvas_width ctx \<and> snd p < canvas_height ctx
             then blend (globalCompositeOperation ctx)
                    (cover (rasterize plat (lineCap ctx) (lineJoin ctx) (lineWidth ctx)
                              (subpaths ctx) p)
                       (premultiply (strokeStyle ctx)))
                    (bitmap ctx p)
             else bitmap ctx p)\<rparr>)"

text \<open>
  The value of \<open>canvas.toDataURL('image/png')\<close>, and of \<open>generateMaskedImage\<close>: the
  empty string (no context), \<open>data:,\<close> for a canvas without pixels, or a PNG, given by
  the rows of straight-colour pixels it encodes without loss.
\<close>

datatype data_url = EmptyString | NoPixels | PNG "rgba list list"

definition toDataURL :: "Context2D \<Rightarrow> data_url" where
  "toDataURL ctx =
     (if canvas_width ctx = 0 \<or> canvas_height ctx = 0 then NoPixels
      else PNG (map (\<lambda>row. map (\<lambda>col. unpremultiply (bitmap ctx (col, row)))
                               [0..<canvas_width ctx])
                  [0..<canvas_height ctx]))"

section \<open>Mask compositor and overlay renderer\<close>

text \<open>
  The body of both \<open>paths.forEach\<close> loops, up to the stroke style (lines 141-148 and
  185-191): begin a path, set the line width, trace the points, stroke.
\<close>

definition tracePoints :: "Point list \<Rightarrow> Context2D \<Rightarrow> Context2D" where
  "tracePoints pts ctx =
     (if 0 < length pts then fold lineTo pts (moveTo (hd pts) ctx) else ctx)"

definition eraseStroke :: "Platform \<Rightarrow> DrawPath \<Rightarrow> Context2D \<Rightarrow> Context2D" where
  "eraseStroke plat path ctx =
     stroke plat (tracePoints (points path) (set_lineWidth (brushSize path) (beginPath ctx)))"

text \<open>\<open>generateMaskedImage\<close> (lines 169-196).\<close>

definition generateMaskedImage ::
  "Platform \<Rightarrow> string \<Rightarrow> Dimensions \<Rightarrow> DrawPath list \<Rightarrow> data_url" where
  "generateMaskedImage plat imageSrc dims ps =
     (if \<not> getContext2d plat then EmptyString
      else (let ctx0 = createCanvas (width dims) (height dims);
                img = newImage plat imageSrc;
                ctx1 = drawImage plat img (width dims) (height dims) ctx0;
                ctx2 = ctx1\<lparr>globalCompositeOperation := DestinationOut,
                           lineCap := RoundCap, lineJoin := RoundJoin\<rparr>;
                ctx3 = fold (eraseStroke plat) ps ctx2;
                ctx4 = ctx3\<lparr>globalCompositeOperation := SourceOver\<rparr>
            in toDataURL ctx4))"

text \<open>
  The export effect (lines 168-201): \<open>Some v\<close> when \<open>onExportImageForAI\<close> is called
  with \<open>v\<close>, \<open>None\<close> when the guard skips the call.
\<close>

definition exportEffect :: "Platform \<Rightarrow> string \<Rightarrow> EditorState \<Rightarrow> data_url option" where
  "exportEffect plat imageSrc st =
     (if 0 < width (imageDimensions st)
      then Some (generateMaskedImage plat imageSrc (imageDimensions st) (paths st))
      else None)"





text \<open>The fully transparent pixels of an exported raster, as \<open>(column, row)\<close> pairs.\<close>

fun transparentPixels :: "data_url \<Rightarrow> (nat \<times> nat) set" where
  "transparentPixels (PNG rows) =
     {(col, row). row < length rows \<and> col < length (rows ! row) \<and> alpha (rows ! row ! col) = 0}"
| "transparentPixels _ = {}"


section \<open>Effects of a render\<close>

text \<open>
  React runs the effects of a render after the render is committed, in the order they
  are declared, each with the props and state of that render; a state setter called by
  an effect changes the state of the next render only. An effect run is recorded with
  the values its closure reads.
\<close>

datatype effect_run =
  RenderCanvas string "DrawPath list" "Point list" Dimensions real
  | ExportImage string "DrawPath list" Dimensions

text \<open>
  The render effect (lines 163-165) and the export effect (lines 168-201), run after a
  render with the given props and state in which one of their dependencies changed.
\<close>

definition effectRuns :: "string \<Rightarrow> real \<Rightarrow> EditorState \<Rightarrow> effect_run list" where
  "effectRuns imageSrc brushSizeProp st =
     RenderCanvas imageSrc (paths st) (currentPath st) (imageDimensions st) brushSizeProp
     # (if 0 < width (imageDimensions st)
        then [ExportImage imageSrc (paths st) (imageDimensions st)] else [])"

text \<open>
  The state updates queued by the image effect (lines 30-33) when \<open>imageSrc\<close> changed;
  the image itself loads later and \<open>onload\<close> runs then.
\<close>

definition imageSrcEffect :: "EditorState \<Rightarrow> EditorState" where
  "imageSrcEffect st = st\<lparr>paths := [], currentPath := []\<rparr>"

text \<open>
  The commit of the first render with a new \<open>imageSrc\<close>: \<open>imageSrc\<close> is a dependency of
  all three effects, so all three run, with the state \<open>st\<close> of that render. The result
  is the effect runs and the state of the next render.
\<close>

definition commitImageChange ::
  "string \<Rightarrow> real \<Rightarrow> EditorState \<Rightarrow> effect_run list \<times> EditorState" where
  "commitImageChange imageSrc brushSizeProp st =
     (effectRuns imageSrc brushSizeProp st, imageSrcEffect st)"

section \<open>The mounted component\<close>

text \<open>
  The component between renders: the \<open>brushSize\<close> prop and the state. The events are
  the handlers bound in the JSX (lines 213-251) and a change of the prop by the parent.
  The undo and clear buttons are disabled while the history is empty.
\<close>

record Component =
  brushSizeProp :: real
  state :: EditorState





section \<open>Concrete inputs\<close>

text \<open>
  A two-by-one opaque image, a platform that always has it available and whose
  rasteriser covers fully the columns left of the line width, a one-point stroke and a
  canvas rectangle at the origin.
\<close>

definition demoImage :: HTMLImageElement where
  "demoImage = \<lparr>complete = True, naturalWidth = 2, naturalHeight = 1,
      pixel = (\<lambda>p. \<lparr>red = 10, green = 20, blue = 30, alpha = 255\<rparr>)\<rparr>"

definition demoPlatform :: Platform where
  "demoPlatform = \<lparr>getContext2d = True, newImage = (\<lambda>_. demoImage),
      resample = (\<lambda>img w h. pixel img),
      rasterize = (\<lambda>cap join w sub p. if real (fst p) < w then 255 else 0)\<rparr>"

definition demoStroke :: "real \<Rightarrow> DrawPath" where
  "demoStroke b = \<lparr>points = [\<lparr>px = Finite 0, py = Finite 0\<rparr>], brushSize = b\<rparr>"

definition demoRect :: DOMRect where
  "demoRect = \<lparr>rect_left = 0, rect_top = 0\<rparr>"





section \<open>Auxiliary facts\<close>

lemma slice_0_minus1_butlast: "slice_0_minus1 xs = butlast xs"
  by (cases xs rule: rev_cases) (simp_all add: slice_0_minus1_def)

lemma computeScale_finite:
  assumes "w \<noteq> 0" "h \<noteq> 0"
  shows "computeScale w h maxWidth maxHeight = Finite (min (min (maxWidth / w) (maxHeight / h)) 1)"
  using assms by (simp add: computeScale_def Math_min_def)

lemma onload_sets:
  "scale (onload innerWidth w h st)
     = computeScale (real w) (real h) (min (innerWidth - 32) 800) 600
   \<and> imageDimensions (onload innerWidth w h st) = \<lparr>width = w, height = h\<rparr>"
  by (simp add: onload_def Let_def)

lemma mul_div255_zero [simp]: "mul_div255 0 b = 0" "mul_div255 a 0 = 0"
  by (simp_all add: mul_div255_def)

lemma mul_div255_full [simp]: "mul_div255 a 255 = a" "mul_div255 255 b = b"
proof -
  have r: "(2 * n * 255 + 255) div 510 = n" "(2 * 255 * n + 255) div 510 = n" for n :: nat
    by presburger+
  show "mul_div255 a 255 = a" by (simp add: mul_div255_def r)
  show "mul_div255 255 b = b" by (simp add: mul_div255_def r)
qed





lemma unpremultiply_alpha [simp]: "alpha (unpremultiply q) = pm_alpha q"
  by (simp add: unpremultiply_def Let_def)


lemma source_over_transparent [simp]: "source_over s transparent_black = s"
  by (simp add: source_over_def transparent_black_def Let_def)


lemma lineTo_fields:
  "canvas_width (lineTo p ctx) = canvas_width ctx"
  "canvas_height (lineTo p ctx) = canvas_height ctx"
  "bitmap (lineTo p ctx) = bitmap ctx"
  "globalCompositeOperation (lineTo p ctx) = globalCompositeOperation ctx"
  "lineWidth (lineTo p ctx) = lineWidth ctx"
  "lineCap (lineTo p ctx) = lineCap ctx"
  "lineJoin (lineTo p ctx) = lineJoin ctx"
  "strokeStyle (lineTo p ctx) = strokeStyle ctx"
  by (simp_all add: lineTo_def split: number.splits)

lemma moveTo_fields:
  "canvas_width (moveTo p ctx) = canvas_width ctx"
  "canvas_height (moveTo p ctx) = canvas_height ctx"
  "bitmap (moveTo p ctx) = bitmap ctx"
  "globalCompositeOperation (moveTo p ctx) = globalCompositeOperation ctx"
  "lineWidth (moveTo p ctx) = lineWidth ctx"
  "lineCap (moveTo p ctx) = lineCap ctx"
  "lineJoin (moveTo p ctx) = lineJoin ctx"
  "strokeStyle (moveTo p ctx) = strokeStyle ctx"
  by (simp_all add: moveTo_def split: number.splits)

lemma fold_lineTo_fields:
  "canvas_width (fold lineTo ps ctx) = canvas_width ctx"
  "canvas_height (fold lineTo ps ctx) = canvas_height ctx"
  "bitmap (fold lineTo ps ctx) = bitmap ctx"
  "globalCompositeOperation (fold lineTo ps ctx) = globalCompositeOperation ctx"
  "lineWidth (fold lineTo ps ctx) = lineWidth ctx"
  "lineCap (fold lineTo ps ctx) = lineCap ctx"
  "lineJoin (fold lineTo ps ctx) = lineJoin ctx"
  "strokeStyle (fold lineTo ps ctx) = strokeStyle ctx"
  by (induction ps arbitrary: ctx) (simp_all add: lineTo_fields)

lemma tracePoints_fields:
  "canvas_width (tracePoints ps ctx) = canvas_width ctx"
  "canvas_height (tracePoints ps ctx) = canvas_height ctx"
  "bitmap (tracePoints ps ctx) = bitmap ctx"
  "globalCompositeOperation (tracePoints ps ctx) = globalCompositeOperation ctx"
  "lineWidth (tracePoints ps ctx) = lineWidth ctx"
  "lineCap (tracePoints ps ctx) = lineCap ctx"
  "lineJoin (tracePoints ps ctx) = lineJoin ctx"
  "strokeStyle (tracePoints ps ctx) = strokeStyle ctx"
  by (simp_all add: tracePoints_def fold_lineTo_fields moveTo_fields)





lemma eraseStroke_fields:
  "canvas_width (eraseStroke plat s ctx) = canvas_width ctx"
  "canvas_height (eraseStroke plat s ctx) = canvas_height ctx"
  "globalCompositeOperation (eraseStroke plat s ctx) = globalCompositeOperation ctx"
  "lineCap (eraseStroke plat s ctx) = lineCap ctx"
  "lineJoin (eraseStroke plat s ctx) = lineJoin ctx"
  "strokeStyle (eraseStroke plat s ctx) = strokeStyle ctx"
  by (simp_all add: eraseStroke_def stroke_def tracePoints_fields set_lineWidth_def beginPath_def)

lemma fold_eraseStroke_fields:
  "canvas_width (fold (eraseStroke plat) S ctx) = canvas_width ctx"
  "canvas_height (fold (eraseStroke plat) S ctx) = canvas_height ctx"
  "globalCompositeOperation (fold (eraseStroke plat) S ctx) = globalCompositeOperation ctx"
  "lineCap (fold (eraseStroke plat) S ctx) = lineCap ctx"
  "lineJoin (fold (eraseStroke plat) S ctx) = lineJoin ctx"
  "strokeStyle (fold (eraseStroke plat) S ctx) = strokeStyle ctx"
  by (induction S arbitrary: ctx) (simp_all add: eraseStroke_fields)

lemma eraseStroke_keeps_transparent:
  assumes "globalCompositeOperation ctx = DestinationOut" "pm_alpha (bitmap ctx p) = 0"
  shows "pm_alpha (bitmap (eraseStroke plat s ctx) p) = 0"
  using assms
  by (simp add: eraseStroke_def stroke_def tracePoints_fields set_lineWidth_def beginPath_def
      destination_out_def Let_def)

lemma transparentPixels_toDataURL:
  "transparentPixels (toDataURL ctx) =
     {(col, row). col < canvas_width ctx \<and> row < canvas_height ctx
        \<and> pm_alpha (bitmap ctx (col, row)) = 0}"
  by (auto simp: toDataURL_def)

lemma generateMaskedImage_fold:
  assumes "getContext2d plat"
  shows "generateMaskedImage plat src dims S =
     toDataURL ((fold (eraseStroke plat) S
        ((drawImage plat (newImage plat src) (width dims) (height dims)
           (createCanvas (width dims) (height dims)))\<lparr>globalCompositeOperation := DestinationOut,
             lineCap := RoundCap, lineJoin := RoundJoin\<rparr>))\<lparr>globalCompositeOperation := SourceOver\<rparr>)"
  using assms by (simp add: generateMaskedImage_def Let_def)

lemma erase_none [simp]:
  "destination_out (cover 0 s) d = d"
  by (simp add: destination_out_def cover_def Let_def)











section \<open>Stroke recorder\<close>

text \<open>
  C4. Undo is the inverse of appending a stroke: undoing right after a stroke was
  appended gives back the state before the append, for every history and stroke; undo
  on an empty history changes nothing; undo on a history of one stroke gives the empty
  history.
\<close>

theorem C4_undo_inverse:
  "handleUndo (appendStroke s st) = st
   \<and> paths (handleUndo (st\<lparr>paths := S @ [s]\<rparr>)) = S
   \<and> handleUndo (st\<lparr>paths := []\<rparr>) = st\<lparr>paths := []\<rparr>
   \<and> paths (handleUndo (st\<lparr>paths := [s]\<rparr>)) = []"
  by (simp add: handleUndo_def appendStroke_def slice_0_minus1_butlast)




section \<open>Geometry\<close>

text \<open>
  C3. For an image of at least 1 by 1 and bounds of at least 1 by 1, the computed scale
  is \<open>min (maxWidth / w) (maxHeight / h) 1\<close>; it lies in \<open>(0, 1]\<close>; the scaled image
  fits the bounds; an image already within the bounds keeps scale 1; and no larger
  value of \<open>(0, 1]\<close> makes the image fit.
\<close>

theorem C3_scale_bound:
  assumes "1 \<le> w" "1 \<le> h" "1 \<le> maxWidth" "1 \<le> maxHeight"
  shows "\<exists>s. computeScale w h maxWidth maxHeight = Finite s
           \<and> s = min (min (maxWidth / w) (maxHeight / h)) 1
           \<and> 0 < s \<and> s \<le> 1
           \<and> w * s \<le> maxWidth \<and> h * s \<le> maxHeight
           \<and> (w \<le> maxWidth \<and> h \<le> maxHeight \<longrightarrow> s = 1)
           \<and> (\<forall>t. 0 < t \<and> t \<le> 1 \<and> w * t \<le> maxWidth \<and> h * t \<le> maxHeight \<longrightarrow> t \<le> s)"
proof -
  define s where "s = min (min (maxWidth / w) (maxHeight / h)) 1"
  have w0: "0 < w" and h0: "0 < h" using assms by simp_all
  have eq: "computeScale w h maxWidth maxHeight = Finite s"
    unfolding s_def using w0 h0 by (simp add: computeScale_finite)
  have pos: "0 < s" unfolding s_def using assms w0 h0 by simp
  have le1: "s \<le> 1" unfolding s_def by simp
  have "s \<le> maxWidth / w" unfolding s_def by simp
  then have bw: "w * s \<le> maxWidth" using w0 by (simp add: field_simps)
  have "s \<le> maxHeight / h" unfolding s_def by simp
  then have bh: "h * s \<le> maxHeight" using h0 by (simp add: field_simps)
  have noup: "w \<le> maxWidth \<and> h \<le> maxHeight \<longrightarrow> s = 1"
    unfolding s_def using w0 h0 by (auto simp: min_def field_simps)
  have largest: "\<forall>t. 0 < t \<and> t \<le> 1 \<and> w * t \<le> maxWidth \<and> h * t \<le> maxHeight \<longrightarrow> t \<le> s"
    unfolding s_def using w0 h0 by (auto simp: field_simps)
  show ?thesis using eq pos le1 bw bh noup largest s_def by blast
qed

theorem C3_scale_bound_witness:
  "(\<exists>s. computeScale 1600 1200 800 600 = Finite s \<and> s = 1 / 2)
   \<and> (\<exists>s. computeScale 400 300 800 600 = Finite s \<and> s = 1)"
  using C3_scale_bound [of 1600 1200 800 600] C3_scale_bound [of 400 300 800 600] by auto

text \<open>
  C7. Coordinate mapping round-trips: with a scale \<open>s > 0\<close>, the pointer position of
  the image point \<open>(x, y)\<close> is the canvas origin plus \<open>(x * s, y * s)\<close>, and
  \<open>getCoordinates\<close> maps a mouse or touch event there back to \<open>(x, y)\<close>. A 1600 by
  1200 image in bounds of 800 by 600 has scale 1/2, and at that scale the display
  points \<open>(0, 0)\<close> and \<open>(100, 0)\<close> map to the image points \<open>(0, 0)\<close> and \<open>(200, 0)\<close>.
\<close>

theorem C7_roundtrip:
  assumes "0 < s"
  shows "getCoordinates (Some rect) (Finite s)
           (MouseEvent (rect_left rect + x * s) (rect_top rect + y * s))
         = Inr (Some \<lparr>px = Finite x, py = Finite y\<rparr>)
       \<and> getCoordinates (Some rect) (Finite s)
           (TouchEvent ((rect_left rect + x * s, rect_top rect + y * s) # ts))
         = Inr (Some \<lparr>px = Finite x, py = Finite y\<rparr>)
       \<and> computeScale 1600 1200 800 600 = Finite (1 / 2)
       \<and> getCoordinates (Some rect) (Finite (1 / 2))
           (MouseEvent (rect_left rect + 0) (rect_top rect + 0))
         = Inr (Some \<lparr>px = Finite 0, py = Finite 0\<rparr>)
       \<and> getCoordinates (Some rect) (Finite (1 / 2))
           (MouseEvent (rect_left rect + 100) (rect_top rect + 0))
         = Inr (Some \<lparr>px = Finite 200, py = Finite 0\<rparr>)"
  using assms by (simp add: getCoordinates_def computeScale_def Math_min_def)

theorem C7_roundtrip_witness:
  "getCoordinates (Some demoRect) (Finite (1 / 2)) (MouseEvent 100 0)
     = Inr (Some \<lparr>px = Finite 200, py = Finite 0\<rparr>)
   \<and> getCoordinates (Some demoRect) (Finite (1 / 2)) (TouchEvent [(0, 0)])
     = Inr (Some \<lparr>px = Finite 0, py = Finite 0\<rparr>)"
  using C7_roundtrip [of "1 / 2" demoRect 200 0 "[]"] C7_roundtrip [of "1 / 2" demoRect 0 0 "[]"]
  by (simp add: demoRect_def)

text \<open>
  C10. With a canvas present, \<open>getCoordinates\<close> returns for a touch event exactly
  when its \<open>touches\<close> list is not empty; on an empty list the read of \<open>touches[0]\<close>
  throws a TypeError, which \<open>startDrawing\<close>, and \<open>draw\<close> while drawing, propagate.
\<close>

theorem C10_touches:
  "((\<exists>p. getCoordinates (Some rect) sc (TouchEvent touches) = Inr p) \<longleftrightarrow> touches \<noteq> [])
   \<and> getCoordinates (Some rect) sc (TouchEvent []) = Inl TypeError
   \<and> startDrawing (Some rect) (TouchEvent []) st = Inl TypeError
   \<and> (isDrawing st \<longrightarrow> draw (Some rect) (TouchEvent []) st = Inl TypeError)"
  by (cases touches) (simp_all add: getCoordinates_def startDrawing_def draw_def)

theorem C10_touches_witness:
  "(\<exists>p. getCoordinates (Some demoRect) (Finite 1) (TouchEvent [(3, 4)]) = Inr p)
   \<and> getCoordinates (Some demoRect) (Finite 1) (TouchEvent []) = Inl TypeError
   \<and> draw (Some demoRect) (TouchEvent []) (initialState\<lparr>isDrawing := True\<rparr>) = Inl TypeError"
  using C10_touches [of demoRect "Finite 1" "[(3, 4)]" initialState]
    C10_touches [of demoRect "Finite 1" "[]" "initialState\<lparr>isDrawing := True\<rparr>"]
  by simp

section \<open>Mask compositor\<close>




text \<open>
  C5. Erasing is monotonic: every pixel that is fully transparent in the composite of
  a history \<open>S\<close> is fully transparent in the composite of \<open>S\<close> followed by one more
  stroke.
\<close>

theorem C5_monotonic_erase:
  "transparentPixels (generateMaskedImage plat src dims S)
     \<subseteq> transparentPixels (generateMaskedImage plat src dims (S @ [s]))"
proof (cases "getContext2d plat")
  case False
  then show ?thesis by (simp add: generateMaskedImage_def)
next
  case True
  define ctx2 where "ctx2 = (drawImage plat (newImage plat src) (width dims) (height dims)
      (createCanvas (width dims) (height dims)))\<lparr>globalCompositeOperation := DestinationOut,
        lineCap := RoundCap, lineJoin := RoundJoin\<rparr>"
  define ctx3 where "ctx3 = fold (eraseStroke plat) S ctx2"
  have gco: "globalCompositeOperation ctx3 = DestinationOut"
    by (simp add: ctx3_def ctx2_def fold_eraseStroke_fields)
  have a: "generateMaskedImage plat src dims S
             = toDataURL (ctx3\<lparr>globalCompositeOperation := SourceOver\<rparr>)"
    unfolding generateMaskedImage_fold [OF True] ctx3_def ctx2_def ..
  have b: "generateMaskedImage plat src dims (S @ [s])
             = toDataURL ((eraseStroke plat s ctx3)\<lparr>globalCompositeOperation := SourceOver\<rparr>)"
    unfolding generateMaskedImage_fold [OF True] ctx3_def ctx2_def by simp
  have step: "pm_alpha (bitmap ctx3 p) = 0 \<Longrightarrow> pm_alpha (bitmap (eraseStroke plat s ctx3) p) = 0" for p
    by (rule eraseStroke_keeps_transparent [OF gco])
  show ?thesis
    unfolding a b transparentPixels_toDataURL
    using step by (auto simp: eraseStroke_fields)
qed

theorem C5_monotonic_erase_witness:
  "transparentPixels (generateMaskedImage demoPlatform ''a.png'' \<lparr>width = 2, height = 1\<rparr> [demoStroke 1])
     \<subseteq> transparentPixels (generateMaskedImage demoPlatform ''a.png'' \<lparr>width = 2, height = 1\<rparr>
          ([demoStroke 1] @ [demoStroke 2]))"
  using C5_monotonic_erase [of demoPlatform "''a.png''" "\<lparr>width = 2, height = 1\<rparr>"
      "[demoStroke 1]" "demoStroke 2"]
  by simp




text \<open>
  C8, as amended. The export effect skips the compositor exactly when the width of the
  image dimensions is 0, as in the state before the image has loaded; with a positive
  width it calls \<open>onExportImageForAI\<close> with the composite, whatever the height. The
  skipped case returns nothing and raises nothing.
\<close>

theorem C8_export_guard:
  "(exportEffect plat src st = None \<longleftrightarrow> width (imageDimensions st) = 0)
   \<and> (0 < width (imageDimensions st) \<longrightarrow>
        exportEffect plat src st
          = Some (generateMaskedImage plat src (imageDimensions st) (paths st)))
   \<and> exportEffect plat src initialState = None"
  by (simp add: exportEffect_def initialState_def)

theorem C8_export_guard_witness:
  "exportEffect demoPlatform ''a.png'' (initialState\<lparr>imageDimensions := \<lparr>width = 0, height = 7\<rparr>\<rparr>) = None
   \<and> exportEffect demoPlatform ''a.png'' (initialState\<lparr>imageDimensions := \<lparr>width = 2, height = 1\<rparr>\<rparr>)
       = Some (generateMaskedImage demoPlatform ''a.png'' \<lparr>width = 2, height = 1\<rparr> [])"
  using C8_export_guard [of demoPlatform "''a.png''"
      "initialState\<lparr>imageDimensions := \<lparr>width = 0, height = 7\<rparr>\<rparr>"]
    C8_export_guard [of demoPlatform "''a.png''"
      "initialState\<lparr>imageDimensions := \<lparr>width = 2, height = 1\<rparr>\<rparr>"]
  by (simp add: initialState_def)

text \<open>
  With width 1 and height 0 the guard lets the export run: the compositor is invoked
  on a canvas without pixels and its result, \<open>data:,\<close>, is exported.
\<close>

theorem C8_height_zero_counterexample:
  "height (imageDimensions (initialState\<lparr>imageDimensions := \<lparr>width = 1, height = 0\<rparr>\<rparr>)) = 0
   \<and> exportEffect demoPlatform ''a.png''
        (initialState\<lparr>imageDimensions := \<lparr>width = 1, height = 0\<rparr>\<rparr>) = Some NoPixels"
  by (simp add: exportEffect_def generateMaskedImage_def toDataURL_def initialState_def
      demoPlatform_def demoImage_def drawImage_def createCanvas_def Let_def)

section \<open>Image change\<close>

text \<open>
  C9. On the commit of the first render with a new image, the render effect and the
  export effect both run with the stroke recorded against the previous image; the
  history is empty only from the following render on.
\<close>

theorem C9_stale_strokes_rendered:
  "commitImageChange ''new.png'' 40
     (initialState\<lparr>paths := [demoStroke 40], imageDimensions := \<lparr>width = 2, height = 1\<rparr>\<rparr>)
   = ([RenderCanvas ''new.png'' [demoStroke 40] [] \<lparr>width = 2, height = 1\<rparr> 40,
       ExportImage ''new.png'' [demoStroke 40] \<lparr>width = 2, height = 1\<rparr>],
      initialState\<lparr>imageDimensions := \<lparr>width = 2, height = 1\<rparr>\<rparr>)
   \<and> effectRuns ''new.png'' 40
       (snd (commitImageChange ''new.png'' 40
          (initialState\<lparr>paths := [demoStroke 40],
             imageDimensions := \<lparr>width = 2, height = 1\<rparr>\<rparr>)))
     = [RenderCanvas ''new.png'' [] [] \<lparr>width = 2, height = 1\<rparr> 40,
        ExportImage ''new.png'' [] \<lparr>width = 2, height = 1\<rparr>]"
  by (simp add: commitImageChange_def effectRuns_def imageSrcEffect_def initialState_def)

end
